theory Spec2Isabelle
  imports Main
begin

section \<open>Text\<close>

text \<open>
  The generator of \<^verbatim>\<open>protoc-gen-go-deal/main.go\<close> builds Go source text with
  \<^verbatim>\<open>fmt.Sprintf\<close>.  Each format string is written out as a concatenation, with the
  characters that cannot stand in a string literal named here.
\<close>

abbreviation newline :: string where
  "newline \<equiv> [CHR 0x0A]"

abbreviation dquote :: string where
  "dquote \<equiv> [CHR 0x22]"

abbreviation squote :: string where
  "squote \<equiv> [CHR 0x27]"

text \<open>\<^verbatim>\<open>strings.Join(elems, sep)\<close>.\<close>

fun Join :: "string list \<Rightarrow> string \<Rightarrow> string" where
  "Join [] sep = []"
| "Join [x] sep = x"
| "Join (x # y # ys) sep = x @ sep @ Join (y # ys) sep"

section \<open>Errors\<close>

text \<open>
  A Go \<^verbatim>\<open>error\<close> is a value.  \<open>Wrapped p e\<close> is \<^verbatim>\<open>fmt.Errorf("p: %w", e)\<close>;
  \<open>External m\<close> is an error with message \<open>m\<close> that comes back from a call outside this
  file (the JSON codecs, the contract reader).
\<close>

datatype go_error =
    External string
  | Option_not_provided
  | Field_not_found string string
  | Invalid_error_code string
  | Wrapped string go_error

text \<open>The message of an error, \<^verbatim>\<open>err.Error()\<close>.\<close>

fun error_message :: "go_error \<Rightarrow> string" where
  "error_message (External m) = m"
| "error_message Option_not_provided =
     squote @ ''contract-file'' @ squote @ '' option not provided''"
| "error_message (Field_not_found field_name message_name) =
     ''field not found '' @ field_name @ '' while inspecting message '' @ message_name"
| "error_message (Invalid_error_code code) = ''invalid error code: '' @ code"
| "error_message (Wrapped p e) = p @ '': '' @ error_message e"

section \<open>The schema, as protogen hands it over\<close>

record GoIdent =
  ident_GoName :: string
  ident_GoImportPath :: string

definition Ident :: "string \<Rightarrow> string \<Rightarrow> GoIdent" where
  "Ident importPath name = \<lparr>ident_GoName = name, ident_GoImportPath = importPath\<rparr>"

record FieldDescriptor =
  fd_Number :: int
  fd_Name :: string

record Field =
  field_Desc :: FieldDescriptor
  field_GoName :: string

record Message =
  message_Desc_Name :: string
  message_GoIdent :: GoIdent
  message_Fields :: "Field list"

record Method =
  method_GoName :: string
  method_Input :: Message
  method_Output :: Message

record Service =
  service_GoName :: string
  service_Methods :: "Method list"

record File =
  file_Generate :: bool
  file_Services :: "Service list"
  file_GeneratedFilenamePrefix :: string
  file_GoImportPath :: string
  file_GoPackageName :: string

section \<open>The contract (package entities)\<close>

text \<open>
  The declarations of package \<^verbatim>\<open>entities\<close> are not among the sources; the records below
  carry exactly the fields that \<^verbatim>\<open>main.go\<close> reads.  \<open>'j\<close> is the type of an untyped
  JSON value (\<^verbatim>\<open>interface{}\<close> in the source).
\<close>

record 'j SuccessCase =
  sc_Description :: string
  sc_Request :: 'j
  sc_Response :: 'j

record Error =
  err_ErrorCode :: string
  err_Message :: string

record 'j FailureCase =
  fc_Description :: string
  fc_Request :: 'j
  fc_Error :: Error

record 'j entities_Method =
  SuccessCases :: "'j SuccessCase list"
  FailureCases :: "'j FailureCase list"

type_synonym 'j entities_Service = "string \<rightharpoonup> 'j entities_Method"

record 'j Contract =
  contract_Name :: string
  contract_Services :: "string \<rightharpoonup> 'j entities_Service"

text \<open>
  Indexing a Go map with a missing key gives the zero value of the element type: for
  \<^verbatim>\<open>entities.Method\<close>, a method contract with no cases.
\<close>

definition zero_Method :: "'j entities_Method" where
  "zero_Method = \<lparr>SuccessCases = [], FailureCases = []\<rparr>"

definition index_Service :: "'j entities_Service \<Rightarrow> string \<Rightarrow> 'j entities_Method" where
  "index_Service contractService name =
     (case contractService name of None \<Rightarrow> zero_Method | Some m \<Rightarrow> m)"

section \<open>Generated files and the calls that leave this file\<close>

text \<open>
  A \<^verbatim>\<open>protogen.GeneratedFile\<close>: its name, its import path and the arguments of the
  \<^verbatim>\<open>P\<close> calls made on it so far, oldest first (\<^verbatim>\<open>P\<close> prints its argument and a
  line break).
\<close>

record GeneratedFile =
  gf_filename :: string
  gf_goImportPath :: string
  gf_buf :: "string list"

definition P :: "string \<Rightarrow> GeneratedFile \<Rightarrow> GeneratedFile" where
  "P s g = g\<lparr>gf_buf := gf_buf g @ [s]\<rparr>"

text \<open>Several \<^verbatim>\<open>P\<close> calls in a row.\<close>

definition Ps :: "string list \<Rightarrow> GeneratedFile \<Rightarrow> GeneratedFile" where
  "Ps ss g = fold P ss g"

text \<open>
  Everything \<^verbatim>\<open>main.go\<close> calls and does not define is a field of the environment:
  \<^item> \<open>QualifiedGoIdent\<close>: \<^verbatim>\<open>GeneratedFile.QualifiedGoIdent\<close>, from the import path of the
    generated file and an identifier to the text that names it there;
  \<^item> \<open>json_Marshal\<close>: \<^verbatim>\<open>json.Marshal\<close>;
  \<^item> \<open>Unmarshal_Range\<close>: \<^verbatim>\<open>protojson.Unmarshal\<close> into
    \<^verbatim>\<open>dynamicpb.NewMessage(message.Desc)\<close>, giving either the decoding error or the
    populated fields (descriptor and value) in the order in which \<^verbatim>\<open>Range\<close> visits them;
  \<^item> \<open>FormatFieldValue\<close>, \<open>IsErrorCodeValid\<close>, \<open>MakeExportedName\<close>,
    \<open>ReadContractFile\<close>: the functions of package \<^verbatim>\<open>processors\<close>;
  \<^item> \<open>Error_String\<close>: the text that the verb \<^verbatim>\<open>%s\<close> prints for an
    \<^verbatim>\<open>entities.Error\<close>;
  \<^item> \<open>Quote\<close>: the text that the verb \<^verbatim>\<open>%q\<close> prints for a string.
  \<open>'v\<close> is the type of a \<^verbatim>\<open>protoreflect.Value\<close>.
\<close>

record ('j, 'v) env =
  QualifiedGoIdent :: "string \<Rightarrow> GoIdent \<Rightarrow> string"
  json_Marshal :: "'j \<Rightarrow> go_error + string"
  Unmarshal_Range :: "string \<Rightarrow> Message \<Rightarrow> go_error + (FieldDescriptor \<times> 'v) list"
  FormatFieldValue :: "'v \<Rightarrow> string"
  IsErrorCodeValid :: "string \<Rightarrow> bool"
  MakeExportedName :: "string \<Rightarrow> string"
  ReadContractFile :: "string \<Rightarrow> go_error + 'j Contract"
  Error_String :: "Error \<Rightarrow> string"
  Quote :: "string \<Rightarrow> string"

definition qualify :: "('j, 'v) env \<Rightarrow> GeneratedFile \<Rightarrow> GoIdent \<Rightarrow> string" where
  "qualify env file ident = QualifiedGoIdent env (gf_goImportPath file) ident"

text \<open>The package constants of lines 21--36.\<close>

definition contextPackage :: string where "contextPackage = ''context''"
definition testingPackage :: string where "testingPackage = ''testing''"
definition logPackage :: string where "logPackage = ''log''"
definition netPackage :: string where "netPackage = ''net''"
definition grpcPackage :: string where "grpcPackage = ''google.golang.org/grpc''"
definition grpcCodes :: string where "grpcCodes = ''google.golang.org/grpc/codes''"
definition grpcStatus :: string where "grpcStatus = ''google.golang.org/grpc/status''"
definition protoPackage :: string where "protoPackage = ''google.golang.org/protobuf/proto''"
definition buffconPackage :: string where
  "buffconPackage = ''google.golang.org/grpc/test/bufconn''"

definition contextContext :: GoIdent where
  "contextContext = Ident contextPackage ''Context''"

definition testingT :: GoIdent where
  "testingT = Ident testingPackage ''T''"

section \<open>Resolving a case value\<close>

text \<open>
  The loop of lines 285--288: later fields overwrite earlier ones that have the same number.
\<close>

definition fieldsMapByNumber :: "Field list \<Rightarrow> (int \<rightharpoonup> Field)" where
  "fieldsMapByNumber message_fields =
     fold (\<lambda>field m. m(fd_Number (field_Desc field) \<mapsto> field)) message_fields Map.empty"

text \<open>
  The callback of lines 293--309 run over the populated fields: an unknown number sets the
  error and stops the traversal, a known one appends \<^verbatim>\<open>GoName: value\<close>.
\<close>

fun Range ::
  "('j, 'v) env \<Rightarrow> (int \<rightharpoonup> Field) \<Rightarrow> Message \<Rightarrow> (FieldDescriptor \<times> 'v) list \<Rightarrow>
     string list \<Rightarrow> go_error + string list" where
  "Range env byNumber message [] messageArguments = Inr messageArguments"
| "Range env byNumber message ((descriptor, v) # rest) messageArguments =
     (case byNumber (fd_Number descriptor) of
        None \<Rightarrow> Inl (Field_not_found (fd_Name descriptor) (message_Desc_Name message))
      | Some field \<Rightarrow>
          Range env byNumber message rest
            (messageArguments @ [field_GoName field @ '': '' @ FormatFieldValue env v]))"

definition inputOutputToString ::
  "('j, 'v) env \<Rightarrow> string \<Rightarrow> Message \<Rightarrow> go_error + string list" where
  "inputOutputToString env data message =
     (case Unmarshal_Range env data message of
        Inl err \<Rightarrow> Inl err
      | Inr populated \<Rightarrow>
          Range env (fieldsMapByNumber (message_Fields message)) message populated [])"

definition getProtoRepresentation ::
  "('j, 'v) env \<Rightarrow> 'j \<Rightarrow> Message \<Rightarrow> GeneratedFile \<Rightarrow> go_error + string" where
  "getProtoRepresentation env r message file =
     (case json_Marshal env r of
        Inl err \<Rightarrow> Inl err
      | Inr marshaledRequest \<Rightarrow>
          (case inputOutputToString env marshaledRequest message of
             Inl err \<Rightarrow> Inl (Wrapped ''failed to generate message representation'' err)
           | Inr messageArguments \<Rightarrow>
               Inr (''&'' @ qualify env file (message_GoIdent message) @ ''{''
                    @ Join messageArguments '','' @ ''}'')))"

section \<open>The mock client\<close>

text \<open>
  \<^verbatim>\<open>generateSuccessCases\<close> and \<^verbatim>\<open>generateFailureCases\<close> append to a
  \<^verbatim>\<open>bytes.Buffer\<close>, whose \<^verbatim>\<open>WriteString\<close> never fails: the buffer is passed in and
  returned, and the branches for a failed write are left out.
\<close>

fun generateSuccessCases ::
  "('j, 'v) env \<Rightarrow> GeneratedFile \<Rightarrow> Method \<Rightarrow> 'j SuccessCase list \<Rightarrow> string \<Rightarrow>
     go_error + string" where
  "generateSuccessCases env file method [] writer = Inr writer"
| "generateSuccessCases env file method (successCase # cases) writer =
     (case getProtoRepresentation env (sc_Request successCase) (method_Input method) file of
        Inl err \<Rightarrow> Inl err
      | Inr requestRepresentation \<Rightarrow>
          (case getProtoRepresentation env (sc_Response successCase) (method_Output method) file of
             Inl err \<Rightarrow> Inl err
           | Inr responseRepresentation \<Rightarrow>
               generateSuccessCases env file method cases
                 (writer
                  @ ''case '' @ qualify env file (Ident protoPackage ''Equal'')
                  @ ''(in, '' @ requestRepresentation @ ''):'' @ newline
                  @ ''// Description: '' @ sc_Description successCase @ newline
                  @ '' return '' @ responseRepresentation @ '', nil'' @ newline)))"

fun generateFailureCases ::
  "('j, 'v) env \<Rightarrow> GeneratedFile \<Rightarrow> Method \<Rightarrow> 'j FailureCase list \<Rightarrow> string \<Rightarrow>
     go_error + string" where
  "generateFailureCases env file method [] writer = Inr writer"
| "generateFailureCases env file method (failureCase # cases) writer =
     (case getProtoRepresentation env (fc_Request failureCase) (method_Input method) file of
        Inl err \<Rightarrow> Inl err
      | Inr requestRepresentation \<Rightarrow>
          if \<not> IsErrorCodeValid env (err_ErrorCode (fc_Error failureCase))
          then Inl (Invalid_error_code (err_ErrorCode (fc_Error failureCase)))
          else
            generateFailureCases env file method cases
              (writer
               @ ''case '' @ qualify env file (Ident protoPackage ''Equal'')
               @ ''(in, '' @ requestRepresentation @ ''):'' @ newline
               @ ''// Description: '' @ fc_Description failureCase @ newline
               @ '' return nil, '' @ qualify env file (Ident grpcStatus ''Errorf'')
               @ ''('' @ qualify env file
                          (Ident grpcCodes (err_ErrorCode (fc_Error failureCase)))
               @ '', '' @ Quote env (err_Message (fc_Error failureCase)) @ '')'' @ newline))"

definition generateClientCases ::
  "('j, 'v) env \<Rightarrow> GeneratedFile \<Rightarrow> Method \<Rightarrow> 'j entities_Method \<Rightarrow> go_error + string" where
  "generateClientCases env file method methodContract =
     (case generateSuccessCases env file method (SuccessCases methodContract) ''switch {'' of
        Inl err \<Rightarrow> Inl (Wrapped ''failed to generate the success cases'' err)
      | Inr switchCase \<Rightarrow>
          (case generateFailureCases env file method (FailureCases methodContract) switchCase of
             Inl err \<Rightarrow> Inl (Wrapped ''failed to generate the failure cases'' err)
           | Inr switchCase' \<Rightarrow> Inr (switchCase' @ ''default: return nil, nil }'')))"

text \<open>The text of lines 140--149.\<close>

definition client_method ::
  "('j, 'v) env \<Rightarrow> GeneratedFile \<Rightarrow> string \<Rightarrow> Method \<Rightarrow> string \<Rightarrow> string" where
  "client_method env file clientName method switchCase =
     ''func (_ '' @ clientName @ '') '' @ method_GoName method
     @ ''(ctx '' @ qualify env file contextContext
     @ '', in *'' @ qualify env file (message_GoIdent (method_Input method))
     @ '', opts ...'' @ qualify env file (Ident grpcPackage ''CallOption'')
     @ '') (*'' @ qualify env file (message_GoIdent (method_Output method))
     @ '', error) {'' @ switchCase @ ''}''"

text \<open>
  The loop of lines 129--152.  A method that the service contract does not name gets the
  zero method contract.
\<close>

fun generateClient_methods ::
  "('j, 'v) env \<Rightarrow> string \<Rightarrow> GeneratedFile \<Rightarrow> Method list \<Rightarrow> 'j entities_Service \<Rightarrow>
     go_error + GeneratedFile" where
  "generateClient_methods env clientName file [] contractService = Inr file"
| "generateClient_methods env clientName file (method # methods) contractService =
     (case generateClientCases env file method
             (index_Service contractService (method_GoName method)) of
        Inl err \<Rightarrow> Inl err
      | Inr switchCase \<Rightarrow>
          generateClient_methods env clientName
            (P '''' (P (client_method env file clientName method switchCase) file))
            methods contractService)"

definition generateClient ::
  "('j, 'v) env \<Rightarrow> GeneratedFile \<Rightarrow> Service \<Rightarrow> 'j entities_Service \<Rightarrow>
     go_error + GeneratedFile" where
  "generateClient env file service contractService =
     (let clientName = MakeExportedName env (service_GoName service) @ ''ContractClient''
      in generateClient_methods env clientName
           (P (''type '' @ clientName @ '' struct {}'') file)
           (service_Methods service) contractService)"

section \<open>The conformance harness\<close>

definition tabs :: "nat \<Rightarrow> string" where
  "tabs n = replicate n (CHR 0x09)"

text \<open>The loop of lines 451--474: one table row for each success case.\<close>

fun generateSuccessTestForServer_rows ::
  "('j, 'v) env \<Rightarrow> GeneratedFile \<Rightarrow> Method \<Rightarrow> 'j SuccessCase list \<Rightarrow>
     go_error + GeneratedFile" where
  "generateSuccessTestForServer_rows env file method [] = Inr file"
| "generateSuccessTestForServer_rows env file method (successCase # successCases) =
     (case getProtoRepresentation env (sc_Request successCase) (method_Input method) file of
        Inl err \<Rightarrow> Inl err
      | Inr requestRepresentation \<Rightarrow>
          (case getProtoRepresentation env (sc_Response successCase) (method_Output method) file of
             Inl err \<Rightarrow> Inl err
           | Inr responseRepresentation \<Rightarrow>
               generateSuccessTestForServer_rows env
                 (P (''{'' @ newline
                     @ ''name: '' @ dquote @ sc_Description successCase @ dquote @ '','' @ newline
                     @ ''request: '' @ requestRepresentation @ '','' @ newline
                     @ ''expectedResponse: '' @ responseRepresentation @ '','' @ newline
                     @ ''},'')
                    file)
                 method successCases))"

text \<open>The text of lines 479--493, with the method's name in it.\<close>

definition success_loop :: "string \<Rightarrow> string" where
  "success_loop methodName =
     ''for _, test := range tests {'' @ newline
     @ tabs 4 @ ''t.Run(test.name, func(t *testing.T) {'' @ newline
     @ tabs 5 @ ''response, err := client.'' @ methodName @ ''(ctx, test.request)'' @ newline
     @ tabs 5 @ ''if err != nil {'' @ newline
     @ tabs 6 @ ''t.Fatalf('' @ dquote @ ''unexpected error happened: %w'' @ dquote
              @ '', err)'' @ newline
     @ tabs 5 @ ''}'' @ newline
     @ newline
     @ tabs 5 @ ''if !proto.Equal(response, test.expectedResponse) {'' @ newline
     @ tabs 6 @ ''t.Fatalf('' @ newline
     @ tabs 7 @ dquote @ ''expected response: %v, given response: %v'' @ dquote @ '',''
              @ newline
     @ tabs 7 @ ''test.expectedResponse, response,'' @ newline
     @ tabs 6 @ '')'' @ newline
     @ tabs 5 @ ''}'' @ newline
     @ tabs 4 @ ''})'' @ newline
     @ tabs 3 @ ''}''"

definition generateSuccessTestForServer ::
  "('j, 'v) env \<Rightarrow> GeneratedFile \<Rightarrow> Method \<Rightarrow> 'j SuccessCase list \<Rightarrow>
     go_error + GeneratedFile" where
  "generateSuccessTestForServer env file method successCases =
     (case generateSuccessTestForServer_rows env
             (Ps [''t.Run('' @ dquote @ ''Success Cases'' @ dquote @ '', func(t *''
                    @ qualify env file testingT @ '') {'',
                  ''tests := []struct {name string'' @ newline
                    @ ''request *'' @ qualify env file (message_GoIdent (method_Input method))
                    @ newline
                    @ ''expectedResponse *''
                    @ qualify env file (message_GoIdent (method_Output method)) @ ''} {'']
                file)
             method successCases of
        Inl err \<Rightarrow> Inl err
      | Inr file' \<Rightarrow>
          Inr (Ps [''}'', '''', success_loop (method_GoName method), ''})''] file'))"

text \<open>
  The loop of lines 521--537: one table row for each failure case.  The expected error is the
  whole \<^verbatim>\<open>failureCase.Error\<close> under the verb \<^verbatim>\<open>%s\<close>, put between two quotation
  marks.
\<close>

fun generateFailureTestForServer_rows ::
  "('j, 'v) env \<Rightarrow> GeneratedFile \<Rightarrow> Method \<Rightarrow> 'j FailureCase list \<Rightarrow>
     go_error + GeneratedFile" where
  "generateFailureTestForServer_rows env file method [] = Inr file"
| "generateFailureTestForServer_rows env file method (failureCase # failureCases) =
     (case getProtoRepresentation env (fc_Request failureCase) (method_Input method) file of
        Inl err \<Rightarrow> Inl err
      | Inr requestRepresentation \<Rightarrow>
          generateFailureTestForServer_rows env
            (P (''{'' @ newline
                @ ''name: '' @ dquote @ fc_Description failureCase @ dquote @ '','' @ newline
                @ ''request: '' @ requestRepresentation @ '','' @ newline
                @ ''expectedError: '' @ dquote @ Error_String env (fc_Error failureCase)
                @ dquote @ '','' @ newline
                @ ''},'')
               file)
            method failureCases)"

text \<open>The text of lines 542--553, with the method's name in it.\<close>

definition failure_loop :: "string \<Rightarrow> string" where
  "failure_loop methodName =
     ''for _, test := range tests {'' @ newline
     @ tabs 4 @ ''t.Run(test.name, func(t *testing.T) {'' @ newline
     @ tabs 5 @ ''_, err := client.'' @ methodName @ ''(ctx, test.request)'' @ newline
     @ tabs 5 @ ''if err == nil {'' @ newline
     @ tabs 6 @ ''t.Fatalf('' @ dquote @ ''an error was expected but no one was returned''
              @ dquote @ '')'' @ newline
     @ tabs 5 @ ''}'' @ newline
     @ newline
     @ tabs 5 @ ''if err.Error() != test.expectedError {'' @ newline
     @ tabs 6 @ ''t.Fatalf('' @ dquote @ ''expected error: %s, given error: %s'' @ dquote
              @ '', test.expectedError, err)'' @ newline
     @ tabs 5 @ ''}'' @ newline
     @ tabs 4 @ ''})'' @ newline
     @ tabs 3 @ ''}''"

definition generateFailureTestForServer ::
  "('j, 'v) env \<Rightarrow> GeneratedFile \<Rightarrow> Method \<Rightarrow> 'j FailureCase list \<Rightarrow>
     go_error + GeneratedFile" where
  "generateFailureTestForServer env file method failureCases =
     (case generateFailureTestForServer_rows env
             (Ps ['''',
                  ''t.Run('' @ dquote @ ''Failure Cases'' @ dquote @ '', func(t *''
                    @ qualify env file testingT @ '') {'',
                  ''tests := []struct {name string'' @ newline
                    @ ''request *'' @ qualify env file (message_GoIdent (method_Input method))
                    @ newline
                    @ ''expectedError string} {'']
                file)
             method failureCases of
        Inl err \<Rightarrow> Inl err
      | Inr file' \<Rightarrow>
          Inr (Ps [''}'', '''', failure_loop (method_GoName method), ''})''] file'))"

text \<open>The text of lines 407--411.\<close>

definition method_test_header :: "('j, 'v) env \<Rightarrow> GeneratedFile \<Rightarrow> Method \<Rightarrow> string" where
  "method_test_header env file method =
     ''t.Run('' @ dquote @ ''Contract test for '' @ squote @ method_GoName method @ squote
     @ '' method'' @ dquote @ '', func(t *'' @ qualify env file testingT @ '') {''"

text \<open>
  The loop of lines 400--425: a method is skipped when the service contract has no entry
  under its name.
\<close>

fun generateSuccessAndFailureTests_methods ::
  "('j, 'v) env \<Rightarrow> GeneratedFile \<Rightarrow> Method list \<Rightarrow> 'j entities_Service \<Rightarrow>
     go_error + GeneratedFile" where
  "generateSuccessAndFailureTests_methods env file [] contractService = Inr file"
| "generateSuccessAndFailureTests_methods env file (method # methods) contractService =
     (case contractService (method_GoName method) of
        None \<Rightarrow> generateSuccessAndFailureTests_methods env file methods contractService
      | Some methodContract \<Rightarrow>
          (case generateSuccessTestForServer env (P (method_test_header env file method) file)
                  method (SuccessCases methodContract) of
             Inl err \<Rightarrow> Inl err
           | Inr file1 \<Rightarrow>
               (case generateFailureTestForServer env file1 method
                       (FailureCases methodContract) of
                  Inl err \<Rightarrow> Inl err
                | Inr file2 \<Rightarrow>
                    generateSuccessAndFailureTests_methods env (P ''})'' file2) methods
                      contractService)))"

definition generateSuccessAndFailureTests ::
  "('j, 'v) env \<Rightarrow> GeneratedFile \<Rightarrow> Service \<Rightarrow> 'j entities_Service \<Rightarrow>
     go_error + GeneratedFile" where
  "generateSuccessAndFailureTests env file service contractService =
     (case generateSuccessAndFailureTests_methods env
             (P (''func run'' @ service_GoName service @ ''Tests(t *''
                 @ qualify env file testingT @ '', ctx '' @ qualify env file contextContext
                 @ '', client '' @ service_GoName service @ ''Client) {'')
                file)
             (service_Methods service) contractService of
        Inl err \<Rightarrow> Inl err
      | Inr file' \<Rightarrow> Inr (P ''}'' file'))"

definition generateServerTest ::
  "('j, 'v) env \<Rightarrow> GeneratedFile \<Rightarrow> Service \<Rightarrow> 'j entities_Service \<Rightarrow>
     go_error + GeneratedFile" where
  "generateServerTest env file service contractService =
     (let functionName = MakeExportedName env (service_GoName service) @ ''ContractTest''
      in generateSuccessAndFailureTests env
           (Ps [''func '' @ functionName @ ''(t *'' @ qualify env file testingT
                  @ '', ctx '' @ qualify env file contextContext
                  @ '', server *'' @ qualify env file (Ident grpcPackage ''Server'') @ '') {'',
                ''// gRPC Server setup'',
                ''bufSize := 1024 * 1024'',
                ''bufferListener := '' @ qualify env file (Ident buffconPackage ''Listen'')
                  @ ''(bufSize)'',
                ''go func() {'',
                ''if err := server.Serve(bufferListener); err != nil {'' @ newline
                  @ tabs 4 @ qualify env file (Ident logPackage ''Fatalf'')
                  @ ''('' @ dquote @ ''Contract Server test exited with error: %v'' @ dquote
                  @ '', err)'' @ newline
                  @ tabs 3 @ ''}'',
                ''}()'',
                ''defer server.Stop()'',
                '''',
                ''// gRPC Client setup'',
                ''dialer := func(_ '' @ qualify env file contextContext
                  @ '', _ string) ('' @ qualify env file (Ident netPackage ''Conn'')
                  @ '', error) { return bufferListener.Dial() }'',
                ''clientConn, err := '' @ qualify env file (Ident grpcPackage ''DialContext'')
                  @ ''(ctx, '' @ dquote @ ''bufnet'' @ dquote @ '', ''
                  @ qualify env file (Ident grpcPackage ''WithContextDialer'')
                  @ ''(dialer), '' @ qualify env file (Ident grpcPackage ''WithInsecure'')
                  @ ''())'',
                ''if err != nil { t.Fatalf('' @ dquote @ ''Failed to dial bufnet: %v'' @ dquote
                  @ '', err) }'',
                ''defer clientConn.Close()'',
                '''',
                ''client := New'' @ service_GoName service @ ''Client(clientConn)'',
                ''run'' @ service_GoName service @ ''Tests(t, ctx, client)'',
                ''}'' @ newline]
               file)
           service contractService)"

section \<open>One generated file for each schema file\<close>

definition writeHeader :: "File \<Rightarrow> GeneratedFile \<Rightarrow> GeneratedFile" where
  "writeHeader originalFile generatedFile =
     Ps [''// Code generated by protoc-gen-go-deal. DO NOT EDIT.'',
         ''//'',
         ''// versions:'',
         ''//   - protoc'',
         '''',
         ''package '' @ file_GoPackageName originalFile,
         '''']
        generatedFile"

text \<open>\<^verbatim>\<open>plugin.NewGeneratedFile(filename, goImportPath)\<close>: a file with nothing printed yet.\<close>

definition NewGeneratedFile :: "string \<Rightarrow> string \<Rightarrow> GeneratedFile" where
  "NewGeneratedFile filename goImportPath =
     \<lparr>gf_filename = filename, gf_goImportPath = goImportPath, gf_buf = []\<rparr>"

text \<open>
  The loop of lines 85--102: a service that the contract does not name is skipped, the others
  get a client and a server test.
\<close>

fun generateContracts_services ::
  "('j, 'v) env \<Rightarrow> GeneratedFile \<Rightarrow> Service list \<Rightarrow> 'j Contract \<Rightarrow>
     go_error + GeneratedFile" where
  "generateContracts_services env newFile [] rawContract = Inr newFile"
| "generateContracts_services env newFile (service # services) rawContract =
     (case contract_Services rawContract (service_GoName service) of
        None \<Rightarrow> generateContracts_services env newFile services rawContract
      | Some serviceContract \<Rightarrow>
          (case generateClient env newFile service serviceContract of
             Inl err \<Rightarrow> Inl err
           | Inr newFile1 \<Rightarrow>
               (case generateServerTest env newFile1 service serviceContract of
                  Inl err \<Rightarrow> Inl err
                | Inr newFile2 \<Rightarrow>
                    generateContracts_services env newFile2 services rawContract)))"

text \<open>
  \<^verbatim>\<open>generateContracts\<close> returns \<^verbatim>\<open>nil, nil\<close> (\<open>Inr None\<close>) for a file without
  services, \<^verbatim>\<open>nil, err\<close> (\<open>Inl err\<close>) on an error, and the new file otherwise.
\<close>

definition generateContracts ::
  "('j, 'v) env \<Rightarrow> File \<Rightarrow> string \<Rightarrow> go_error + GeneratedFile option" where
  "generateContracts env file contractFilePath =
     (if length (file_Services file) = 0 then Inr None
      else
        (case ReadContractFile env contractFilePath of
           Inl err \<Rightarrow> Inl err
         | Inr rawContract \<Rightarrow>
             (let filename = file_GeneratedFilenamePrefix file @ ''_contract.pb.go'';
                  newFile = NewGeneratedFile filename (file_GoImportPath file)
              in case generateContracts_services env (writeHeader file newFile)
                        (file_Services file) rawContract of
                   Inl err \<Rightarrow> Inl err
                 | Inr newFile' \<Rightarrow> Inr (Some newFile'))))"

section \<open>The run\<close>

text \<open>
  The loop of lines 52--59 over \<^verbatim>\<open>plugin.Files\<close>.  The files that
  \<^verbatim>\<open>plugin.NewGeneratedFile\<close> has registered with the plugin are collected in
  \<open>generated\<close>, in the order of their creation; the first error ends the loop.
\<close>

fun main_files ::
  "('j, 'v) env \<Rightarrow> File list \<Rightarrow> string \<Rightarrow> GeneratedFile list \<Rightarrow>
     go_error + GeneratedFile list" where
  "main_files env [] contractFilePath generated = Inr generated"
| "main_files env (file # files) contractFilePath generated =
     (if file_Generate file
      then (case generateContracts env file contractFilePath of
              Inl err \<Rightarrow> Inl err
            | Inr None \<Rightarrow> main_files env files contractFilePath generated
            | Inr (Some newFile) \<Rightarrow>
                main_files env files contractFilePath (generated @ [newFile]))
      else main_files env files contractFilePath generated)"

text \<open>
  The function handed to \<^verbatim>\<open>protogen.Options.Run\<close>.  The flag \<^verbatim>\<open>contract-file\<close> has the
  default \<^verbatim>\<open>""\<close> (line 41): \<open>None\<close> is a run without the option, \<open>Some v\<close> a run
  with \<^verbatim>\<open>contract-file=v\<close>.  \<^verbatim>\<open>Run\<close> answers the compiler with the error alone when the
  function returns one, and with the generated files otherwise: the result \<open>Inl err\<close> is a
  run that emits no file.
\<close>

definition main ::
  "('j, 'v) env \<Rightarrow> string option \<Rightarrow> File list \<Rightarrow> go_error + GeneratedFile list" where
  "main env contract_file plugin_Files =
     (let contractFilePath = (case contract_file of None \<Rightarrow> '''' | Some v \<Rightarrow> v)
      in if contractFilePath = '''' then Inl Option_not_provided
         else main_files env plugin_Files contractFilePath [])"

section \<open>What the generated mock method does\<close>

text \<open>
  The body of a generated client method is one Go \<^verbatim>\<open>switch\<close> without a tag: a list of
  clauses \<^verbatim>\<open>case proto.Equal(in, request): // Description ... return ...\<close> and a final
  \<^verbatim>\<open>default: return nil, nil\<close>.  A clause is kept as its three parts; \<open>render_switch\<close>
  prints the list, and the theorems below show that the text of \<open>generateClientCases\<close>
  is such a print.  The reading assumes that the text of a description stays on its comment
  line.
\<close>

datatype reply =
    Reply string
  | Status_error string string
  | Nil_nil

record clause =
  clause_request :: string
  clause_description :: string
  clause_outcome :: reply

text \<open>
  \<open>Reply r\<close> is \<^verbatim>\<open>return r, nil\<close>, \<open>Status_error code message\<close> is
  \<^verbatim>\<open>return nil, status.Errorf(codes.code, "message")\<close>, \<open>Nil_nil\<close> is
  \<^verbatim>\<open>return nil, nil\<close>.
\<close>

fun render_outcome :: "('j, 'v) env \<Rightarrow> GeneratedFile \<Rightarrow> reply \<Rightarrow> string" where
  "render_outcome env file (Reply r) = '' return '' @ r @ '', nil'' @ newline"
| "render_outcome env file (Status_error code message) =
     '' return nil, '' @ qualify env file (Ident grpcStatus ''Errorf'')
     @ ''('' @ qualify env file (Ident grpcCodes code)
     @ '', '' @ Quote env message @ '')'' @ newline"
| "render_outcome env file Nil_nil = ''default: return nil, nil }''"

definition render_clause :: "('j, 'v) env \<Rightarrow> GeneratedFile \<Rightarrow> clause \<Rightarrow> string" where
  "render_clause env file c =
     ''case '' @ qualify env file (Ident protoPackage ''Equal'')
     @ ''(in, '' @ clause_request c @ ''):'' @ newline
     @ ''// Description: '' @ clause_description c @ newline
     @ render_outcome env file (clause_outcome c)"

definition render_switch :: "('j, 'v) env \<Rightarrow> GeneratedFile \<Rightarrow> clause list \<Rightarrow> string" where
  "render_switch env file cs =
     ''switch {'' @ concat (map (render_clause env file) cs)
     @ render_outcome env file Nil_nil"





section \<open>What a generated failure subtest does\<close>

text \<open>
  A row of the table that \<open>generateFailureTestForServer\<close> prints, as its three parts.
  The expected error is the text that stands between the quotation marks; the reading assumes
  that this text and the name need no escaping there.
\<close>

record failure_row =
  row_name :: string
  row_request :: string
  row_expectedError :: string

definition render_failure_row :: "failure_row \<Rightarrow> string" where
  "render_failure_row r =
     ''{'' @ newline
     @ ''name: '' @ dquote @ row_name r @ dquote @ '','' @ newline
     @ ''request: '' @ row_request r @ '','' @ newline
     @ ''expectedError: '' @ dquote @ row_expectedError r @ dquote @ '','' @ newline
     @ ''},''"

text \<open>The row that one pass of the loop of lines 521--537 prints.\<close>

definition failure_test ::
  "('j, 'v) env \<Rightarrow> GeneratedFile \<Rightarrow> Method \<Rightarrow> 'j FailureCase \<Rightarrow> go_error + failure_row" where
  "failure_test env file method failureCase =
     (case getProtoRepresentation env (fc_Request failureCase) (method_Input method) file of
        Inl err \<Rightarrow> Inl err
      | Inr requestRepresentation \<Rightarrow>
          Inr \<lparr>row_name = fc_Description failureCase,
               row_request = requestRepresentation,
               row_expectedError = Error_String env (fc_Error failureCase)\<rparr>)"


datatype verdict =
    Passed
  | Fatalf string


section \<open>The sections of a generated method test\<close>

text \<open>
  The lines that \<open>generateSuccessTestForServer\<close> and
  \<open>generateFailureTestForServer\<close> print around the rows of their tables.
\<close>

definition success_section ::
  "('j, 'v) env \<Rightarrow> GeneratedFile \<Rightarrow> Method \<Rightarrow> string list \<Rightarrow> string list" where
  "success_section env file method rows =
     [''t.Run('' @ dquote @ ''Success Cases'' @ dquote @ '', func(t *''
        @ qualify env file testingT @ '') {'',
      ''tests := []struct {name string'' @ newline
        @ ''request *'' @ qualify env file (message_GoIdent (method_Input method)) @ newline
        @ ''expectedResponse *'' @ qualify env file (message_GoIdent (method_Output method))
        @ ''} {'']
     @ rows
     @ [''}'', [], success_loop (method_GoName method), ''})'']"

definition failure_section ::
  "('j, 'v) env \<Rightarrow> GeneratedFile \<Rightarrow> Method \<Rightarrow> failure_row list \<Rightarrow> string list" where
  "failure_section env file method rows =
     [[],
      ''t.Run('' @ dquote @ ''Failure Cases'' @ dquote @ '', func(t *''
        @ qualify env file testingT @ '') {'',
      ''tests := []struct {name string'' @ newline
        @ ''request *'' @ qualify env file (message_GoIdent (method_Input method)) @ newline
        @ ''expectedError string} {'']
     @ map render_failure_row rows
     @ [''}'', [], failure_loop (method_GoName method), ''})'']"

text \<open>The row that one pass of the loop of lines 451--474 prints.\<close>

definition success_test ::
  "('j, 'v) env \<Rightarrow> GeneratedFile \<Rightarrow> Method \<Rightarrow> 'j SuccessCase \<Rightarrow> go_error + string" where
  "success_test env file method successCase =
     (case getProtoRepresentation env (sc_Request successCase) (method_Input method) file of
        Inl err \<Rightarrow> Inl err
      | Inr requestRepresentation \<Rightarrow>
          (case getProtoRepresentation env (sc_Response successCase) (method_Output method) file of
             Inl err \<Rightarrow> Inl err
           | Inr responseRepresentation \<Rightarrow>
               Inr (''{'' @ newline
                    @ ''name: '' @ dquote @ sc_Description successCase @ dquote @ '','' @ newline
                    @ ''request: '' @ requestRepresentation @ '','' @ newline
                    @ ''expectedResponse: '' @ responseRepresentation @ '','' @ newline
                    @ ''},'')))"

text \<open>The first line of \<open>generateSuccessAndFailureTests\<close> (lines 391--397).\<close>

definition run_tests_header :: "('j, 'v) env \<Rightarrow> GeneratedFile \<Rightarrow> Service \<Rightarrow> string" where
  "run_tests_header env file service =
     ''func run'' @ service_GoName service @ ''Tests(t *'' @ qualify env file testingT
     @ '', ctx '' @ qualify env file contextContext
     @ '', client '' @ service_GoName service @ ''Client) {''"

text \<open>The lines of one pass of the loop of lines 400--425 that does not skip its method.\<close>

definition method_block ::
  "('j, 'v) env \<Rightarrow> GeneratedFile \<Rightarrow> Method \<Rightarrow> string list \<Rightarrow> failure_row list \<Rightarrow>
     string list" where
  "method_block env file method srows frows =
     method_test_header env file method
     # success_section env file method srows
     @ failure_section env file method frows
     @ [''})'']"

text \<open>The numbers of the populated fields of a decoded value, in the order of the traversal.\<close>

definition visited :: "('j, 'v) env \<Rightarrow> string \<Rightarrow> Message \<Rightarrow> int list" where
  "visited env data message =
     (case Unmarshal_Range env data message of
        Inl err \<Rightarrow> []
      | Inr populated \<Rightarrow> map (\<lambda>p. fd_Number (fst p)) populated)"

section \<open>The example of the README\<close>

text \<open>
  The service and the contract of the README, with a stand-in for every call that leaves
  \<^verbatim>\<open>main.go\<close>.  A JSON value is its text and \<open>json.Marshal\<close> hands it on; the decoder
  knows the values of the example; a field value is the Go text that stands for it.
\<close>

definition quoted :: "string \<Rightarrow> string" where
  "quoted s = dquote @ s @ dquote"

definition requestField :: Field where
  "requestField =
     \<lparr>field_Desc = \<lparr>fd_Number = 1, fd_Name = ''requestField''\<rparr>,
      field_GoName = ''RequestField''\<rparr>"

definition responseField :: Field where
  "responseField =
     \<lparr>field_Desc = \<lparr>fd_Number = 1, fd_Name = ''responseField''\<rparr>,
      field_GoName = ''ResponseField''\<rparr>"

definition RequestMessage :: Message where
  "RequestMessage =
     \<lparr>message_Desc_Name = ''RequestMessage'',
      message_GoIdent = Ident ''example'' ''RequestMessage'',
      message_Fields = [requestField]\<rparr>"

definition ResponseMessage :: Message where
  "ResponseMessage =
     \<lparr>message_Desc_Name = ''ResponseMessage'',
      message_GoIdent = Ident ''example'' ''ResponseMessage'',
      message_Fields = [responseField]\<rparr>"

definition MyMethod :: Method where
  "MyMethod =
     \<lparr>method_GoName = ''MyMethod'', method_Input = RequestMessage,
      method_Output = ResponseMessage\<rparr>"

definition MyService :: Service where
  "MyService = \<lparr>service_GoName = ''MyService'', service_Methods = [MyMethod]\<rparr>"

definition example_proto :: File where
  "example_proto =
     \<lparr>file_Generate = True, file_Services = [MyService],
      file_GeneratedFilenamePrefix = ''example'', file_GoImportPath = ''example'',
      file_GoPackageName = ''example''\<rparr>"

definition example_file :: GeneratedFile where
  "example_file = NewGeneratedFile ''example_contract.pb.go'' ''example''"

definition json_VALUE :: string where
  "json_VALUE = ''{'' @ quoted ''requestField'' @ '':'' @ quoted ''VALUE'' @ ''}''"

definition json_ANOTHER_VALUE :: string where
  "json_ANOTHER_VALUE = ''{'' @ quoted ''requestField'' @ '':'' @ quoted ''ANOTHER_VALUE'' @ ''}''"

definition json_42 :: string where
  "json_42 = ''{'' @ quoted ''responseField'' @ '':42}''"

definition json_7 :: string where
  "json_7 = ''{'' @ quoted ''responseField'' @ '':7}''"

definition should_do_something :: "string SuccessCase" where
  "should_do_something =
     \<lparr>sc_Description = ''Should do something'', sc_Request = json_VALUE,
      sc_Response = json_42\<rparr>"

definition some_description_here :: "string FailureCase" where
  "some_description_here =
     \<lparr>fc_Description = ''Some description here'', fc_Request = json_ANOTHER_VALUE,
      fc_Error = \<lparr>err_ErrorCode = ''NotFound'', err_Message = ''ANOTHER_VALUE NotFound''\<rparr>\<rparr>"

definition MyMethod_contract :: "string entities_Method" where
  "MyMethod_contract =
     \<lparr>SuccessCases = [should_do_something], FailureCases = [some_description_here]\<rparr>"

definition MyService_contract :: "string entities_Service" where
  "MyService_contract = [''MyMethod'' \<mapsto> MyMethod_contract]"

definition readme_contract :: "string Contract" where
  "readme_contract =
     \<lparr>contract_Name = ''Some Name Here'',
      contract_Services = [''MyService'' \<mapsto> MyService_contract]\<rparr>"

text \<open>Variations of the contract: one more success case with the request of the first.\<close>

definition should_do_something_else :: "string SuccessCase" where
  "should_do_something_else =
     \<lparr>sc_Description = ''Should do something else'', sc_Request = json_VALUE,
      sc_Response = json_7\<rparr>"

definition twice_contract :: "string entities_Method" where
  "twice_contract =
     \<lparr>SuccessCases = [should_do_something, should_do_something_else],
      FailureCases = [some_description_here]\<rparr>"

text \<open>A contract that names another service only.\<close>

definition other_contract :: "string Contract" where
  "other_contract =
     \<lparr>contract_Name = ''Other'',
      contract_Services = [''OtherService'' \<mapsto> MyService_contract]\<rparr>"

text \<open>A contract whose entry for the method declares no case.\<close>

definition nocases_contract :: "string Contract" where
  "nocases_contract =
     \<lparr>contract_Name = ''No cases'',
      contract_Services = [''MyService'' \<mapsto> [''MyMethod'' \<mapsto> zero_Method]]\<rparr>"

text \<open>A failure case with a code that is no status code.\<close>

definition not_a_real_code :: "string FailureCase" where
  "not_a_real_code =
     \<lparr>fc_Description = ''Bad code'', fc_Request = json_ANOTHER_VALUE,
      fc_Error = \<lparr>err_ErrorCode = ''NotARealCode'', err_Message = ''ANOTHER_VALUE NotFound''\<rparr>\<rparr>"

definition badcode_Method :: "string entities_Method" where
  "badcode_Method =
     \<lparr>SuccessCases = [should_do_something], FailureCases = [not_a_real_code]\<rparr>"

text \<open>The bad code under the method of the schema, and under a method the schema lacks.\<close>

definition badcode_Service :: "string entities_Service" where
  "badcode_Service = [''MyMethod'' \<mapsto> badcode_Method]"

definition badcode_contract :: "string Contract" where
  "badcode_contract =
     \<lparr>contract_Name = ''Bad code'',
      contract_Services = [''MyService'' \<mapsto> badcode_Service]\<rparr>"

definition stray_Service :: "string entities_Service" where
  "stray_Service = [''NoSuchMethod'' \<mapsto> badcode_Method]"

definition stray_contract :: "string Contract" where
  "stray_contract =
     \<lparr>contract_Name = ''Stray method'',
      contract_Services = [''MyService'' \<mapsto> stray_Service]\<rparr>"

text \<open>
  A message with two fields, a value of it that the decoder hands over with field 2 before
  field 1, and a value with a populated field that the message does not declare.
\<close>

definition PairMessage :: Message where
  "PairMessage =
     \<lparr>message_Desc_Name = ''PairMessage'',
      message_GoIdent = Ident ''example'' ''PairMessage'',
      message_Fields =
        [\<lparr>field_Desc = \<lparr>fd_Number = 1, fd_Name = ''first''\<rparr>, field_GoName = ''First''\<rparr>,
         \<lparr>field_Desc = \<lparr>fd_Number = 2, fd_Name = ''second''\<rparr>, field_GoName = ''Second''\<rparr>,
         \<lparr>field_Desc = \<lparr>fd_Number = 3, fd_Name = ''third''\<rparr>, field_GoName = ''Third''\<rparr>]\<rparr>"

definition json_pair :: string where
  "json_pair = ''{'' @ quoted ''first'' @ '':1,'' @ quoted ''second'' @ '':2}''"

definition json_drift :: string where
  "json_drift = ''{'' @ quoted ''first'' @ '':1,'' @ quoted ''ghost'' @ '':9}''"

definition status_codes :: "string list" where
  "status_codes =
     [''OK'', ''Canceled'', ''Unknown'', ''InvalidArgument'', ''DeadlineExceeded'',
      ''NotFound'', ''AlreadyExists'', ''PermissionDenied'', ''ResourceExhausted'',
      ''FailedPrecondition'', ''Aborted'', ''OutOfRange'', ''Unimplemented'', ''Internal'',
      ''Unavailable'', ''DataLoss'', ''Unauthenticated'']"

definition example_decode :: "string \<Rightarrow> Message \<Rightarrow> go_error + (FieldDescriptor \<times> string) list" where
  "example_decode data message =
     (if message_Desc_Name message = ''RequestMessage'' \<and> data = json_VALUE
      then Inr [(field_Desc requestField, quoted ''VALUE'')]
      else if message_Desc_Name message = ''RequestMessage'' \<and> data = json_ANOTHER_VALUE
      then Inr [(field_Desc requestField, quoted ''ANOTHER_VALUE'')]
      else if message_Desc_Name message = ''ResponseMessage'' \<and> data = json_42
      then Inr [(field_Desc responseField, ''42'')]
      else if message_Desc_Name message = ''ResponseMessage'' \<and> data = json_7
      then Inr [(field_Desc responseField, ''7'')]
      else if message_Desc_Name message = ''PairMessage'' \<and> data = json_pair
      then Inr [(\<lparr>fd_Number = 2, fd_Name = ''second''\<rparr>, ''2''),
                (\<lparr>fd_Number = 1, fd_Name = ''first''\<rparr>, ''1'')]
      else if message_Desc_Name message = ''PairMessage'' \<and> data = json_drift
      then Inr [(\<lparr>fd_Number = 1, fd_Name = ''first''\<rparr>, ''1''),
                (\<lparr>fd_Number = 9, fd_Name = ''ghost''\<rparr>, ''9'')]
      else Inl (External ''proto: syntax error''))"

definition example_read :: "string \<Rightarrow> go_error + string Contract" where
  "example_read path =
     (if path = ''contract.json'' then Inr readme_contract
      else if path = ''other.json'' then Inr other_contract
      else if path = ''nocases.json'' then Inr nocases_contract
      else if path = ''badcode.json'' then Inr badcode_contract
      else if path = ''stray.json'' then Inr stray_contract
      else Inl (External ''no such file''))"

definition example_qualified :: "string \<Rightarrow> GoIdent \<Rightarrow> string" where
  "example_qualified importPath ident =
     (if ident_GoImportPath ident = importPath then ident_GoName ident
      else rev (takeWhile (\<lambda>c. c \<noteq> CHR ''/'') (rev (ident_GoImportPath ident)))
           @ ''.'' @ ident_GoName ident)"

definition example_env :: "(string, string) env" where
  "example_env =
     \<lparr>QualifiedGoIdent = example_qualified,
      json_Marshal = Inr,
      Unmarshal_Range = example_decode,
      FormatFieldValue = (\<lambda>v. v),
      IsErrorCodeValid = (\<lambda>code. code \<in> set status_codes),
      MakeExportedName = (\<lambda>name. name),
      ReadContractFile = example_read,
      Error_String =
        (\<lambda>e. ''rpc error: code = '' @ err_ErrorCode e @ '' desc = '' @ err_Message e),
      Quote = quoted\<rparr>"

text \<open>
  The clauses that the generator writes for \<open>twice_contract\<close>, and the comparison used
  in the examples: an incoming request is given by the text that constructs it, and it equals
  a case's request when the two texts are the same.
\<close>

definition twice_clauses :: "clause list" where
  "twice_clauses =
     [\<lparr>clause_request = ''&RequestMessage{RequestField: '' @ quoted ''VALUE'' @ ''}'',
       clause_description = ''Should do something'',
       clause_outcome = Reply ''&ResponseMessage{ResponseField: 42}''\<rparr>,
      \<lparr>clause_request = ''&RequestMessage{RequestField: '' @ quoted ''VALUE'' @ ''}'',
       clause_description = ''Should do something else'',
       clause_outcome = Reply ''&ResponseMessage{ResponseField: 7}''\<rparr>,
      \<lparr>clause_request = ''&RequestMessage{RequestField: '' @ quoted ''ANOTHER_VALUE'' @ ''}'',
       clause_description = ''Some description here'',
       clause_outcome = Status_error ''NotFound'' ''ANOTHER_VALUE NotFound''\<rparr>]"




text \<open>The example service with a second method, for which the contract has no entry.\<close>

definition OtherMethod :: Method where
  "OtherMethod =
     \<lparr>method_GoName = ''OtherMethod'', method_Input = RequestMessage,
      method_Output = ResponseMessage\<rparr>"

definition TwoService :: Service where
  "TwoService = \<lparr>service_GoName = ''MyService'', service_Methods = [MyMethod, OtherMethod]\<rparr>"


section \<open>The generated switch, clause by clause\<close>

lemmas example_defs =
  example_env_def example_decode_def example_read_def example_qualified_def example_file_def
  NewGeneratedFile_def quoted_def
  requestField_def responseField_def RequestMessage_def ResponseMessage_def PairMessage_def
  MyMethod_def MyService_def example_proto_def
  json_VALUE_def json_ANOTHER_VALUE_def json_42_def json_7_def json_pair_def json_drift_def
  should_do_something_def some_description_here_def should_do_something_else_def
  not_a_real_code_def MyMethod_contract_def MyService_contract_def twice_contract_def
  badcode_Method_def status_codes_def

lemmas resolve_defs =
  getProtoRepresentation_def inputOutputToString_def fieldsMapByNumber_def qualify_def Ident_def

lemmas package_defs =
  contextPackage_def testingPackage_def logPackage_def netPackage_def grpcPackage_def
  grpcCodes_def grpcStatus_def protoPackage_def buffconPackage_def contextContext_def
  testingT_def





section \<open>The clause that runs\<close>









section \<open>The run without its option\<close>

text \<open>
  C10.  A run without the \<^verbatim>\<open>contract-file\<close> option returns the error
  \<^verbatim>\<open>'contract-file' option not provided\<close>, whatever the files of the plugin are and
  whatever the calls that leave the file would answer: no contract is read and no file is
  generated.
\<close>

theorem missing_option:
  "main env None plugin_Files = Inl Option_not_provided
   \<and> error_message Option_not_provided
       = squote @ ''contract-file'' @ squote @ '' option not provided''"
  by (simp add: main_def)

section \<open>Resolution\<close>

lemma fold_update_Some:
  "fold (\<lambda>field m. m(k field \<mapsto> field)) fs m0 n = Some f \<Longrightarrow>
   (f \<in> set fs \<and> k f = n) \<or> m0 n = Some f"
  by (induction fs arbitrary: m0) (fastforce split: if_splits)+

lemma fold_update_dom:
  "dom (fold (\<lambda>field m. m(k field \<mapsto> field)) fs m0) = dom m0 \<union> k ` set fs"
  by (induction fs arbitrary: m0) auto

lemma fieldsMapByNumber_Some:
  "fieldsMapByNumber fs n = Some f \<Longrightarrow> f \<in> set fs \<and> fd_Number (field_Desc f) = n"
  using fold_update_Some [of "\<lambda>f. fd_Number (field_Desc f)" fs Map.empty n f]
  by (simp add: fieldsMapByNumber_def)

lemma fieldsMapByNumber_None:
  "fieldsMapByNumber fs n = None \<longleftrightarrow> n \<notin> (\<lambda>f. fd_Number (field_Desc f)) ` set fs"
proof -
  have "dom (fieldsMapByNumber fs) = (\<lambda>f. fd_Number (field_Desc f)) ` set fs"
    using fold_update_dom [of "\<lambda>f. fd_Number (field_Desc f)" fs Map.empty]
    by (simp add: fieldsMapByNumber_def)
  then show ?thesis
    by (metis domIff)
qed

lemma Range_Inr:
  "Range env byNumber message populated args = Inr out \<Longrightarrow>
   \<exists>new. out = args @ new
     \<and> list_all2 (\<lambda>p a. \<exists>field. byNumber (fd_Number (fst p)) = Some field
                        \<and> a = field_GoName field @ '': '' @ FormatFieldValue env (snd p))
         populated new"
proof (induction populated arbitrary: args out)
  case Nil
  then show ?case by simp
next
  case (Cons p populated)
  obtain descriptor v where p: "p = (descriptor, v)" by (cases p)
  from Cons.prems p obtain field where
    field: "byNumber (fd_Number descriptor) = Some field"
    and rest: "Range env byNumber message populated
                 (args @ [field_GoName field @ '': '' @ FormatFieldValue env v]) = Inr out"
    by (auto split: option.splits)
  let ?a = "field_GoName field @ '': '' @ FormatFieldValue env v"
  from Cons.IH [OF rest] obtain new where
    out: "out = (args @ [?a]) @ new"
    and new: "list_all2 (\<lambda>p a. \<exists>field. byNumber (fd_Number (fst p)) = Some field
                        \<and> a = field_GoName field @ '': '' @ FormatFieldValue env (snd p))
         populated new"
    by blast
  from out new field p show ?case
    by (intro exI [of _ "?a # new"]) simp
qed

lemma Range_unknown:
  "\<exists>p \<in> set populated. byNumber (fd_Number (fst p)) = None \<Longrightarrow>
   \<exists>descriptor v. (descriptor, v) \<in> set populated
     \<and> byNumber (fd_Number descriptor) = None
     \<and> Range env byNumber message populated args
         = Inl (Field_not_found (fd_Name descriptor) (message_Desc_Name message))"
proof (induction populated arbitrary: args)
  case Nil
  then show ?case by simp
next
  case (Cons p populated)
  obtain descriptor v where p: "p = (descriptor, v)" by (cases p)
  show ?case
  proof (cases "byNumber (fd_Number descriptor)")
    case None
    with p show ?thesis by auto
  next
    case (Some field)
    with Cons.prems p have "\<exists>p \<in> set populated. byNumber (fd_Number (fst p)) = None"
      by auto
    from Cons.IH [OF this, of "args @ [field_GoName field @ '': '' @ FormatFieldValue env v]"]
      Some p show ?thesis
      by auto
  qed
qed

text \<open>
  C7.  When the value decodes and one of its populated fields has a number that no field of
  the message type carries, \<open>inputOutputToString\<close> returns the error
  \<^verbatim>\<open>field not found <name> while inspecting message <message>\<close> for such a field (the first
  one met), and \<open>getProtoRepresentation\<close> returns that error wrapped.
\<close>

theorem field_mismatch:
  assumes "Unmarshal_Range env data message = Inr populated"
    and "\<exists>p \<in> set populated.
           fd_Number (fst p) \<notin> (\<lambda>f. fd_Number (field_Desc f)) ` set (message_Fields message)"
  shows "\<exists>descriptor v.
           (descriptor, v) \<in> set populated
         \<and> fd_Number descriptor \<notin> (\<lambda>f. fd_Number (field_Desc f)) ` set (message_Fields message)
         \<and> inputOutputToString env data message
             = Inl (Field_not_found (fd_Name descriptor) (message_Desc_Name message))
         \<and> error_message (Field_not_found (fd_Name descriptor) (message_Desc_Name message))
             = ''field not found '' @ fd_Name descriptor
               @ '' while inspecting message '' @ message_Desc_Name message
         \<and> (\<forall>r file. json_Marshal env r = Inr data \<longrightarrow>
               getProtoRepresentation env r message file
                 = Inl (Wrapped ''failed to generate message representation''
                         (Field_not_found (fd_Name descriptor) (message_Desc_Name message))))"
proof -
  let ?byNumber = "fieldsMapByNumber (message_Fields message)"
  from assms(2) have "\<exists>p \<in> set populated. ?byNumber (fd_Number (fst p)) = None"
    by (simp add: fieldsMapByNumber_None)
  from Range_unknown [OF this, of env message "[]"] obtain descriptor v where
    "(descriptor, v) \<in> set populated" "?byNumber (fd_Number descriptor) = None"
    "Range env ?byNumber message populated []
       = Inl (Field_not_found (fd_Name descriptor) (message_Desc_Name message))"
    by blast
  with assms(1) show ?thesis
    by (intro exI [of _ descriptor] exI [of _ v])
       (simp add: inputOutputToString_def getProtoRepresentation_def fieldsMapByNumber_None)
qed

theorem field_mismatch_witness:
  "Unmarshal_Range example_env json_drift PairMessage
     = Inr [(\<lparr>fd_Number = 1, fd_Name = ''first''\<rparr>, ''1''),
            (\<lparr>fd_Number = 9, fd_Name = ''ghost''\<rparr>, ''9'')]
   \<and> inputOutputToString example_env json_drift PairMessage
       = Inl (Field_not_found ''ghost'' ''PairMessage'')
   \<and> getProtoRepresentation example_env json_drift PairMessage example_file
       = Inl (Wrapped ''failed to generate message representation''
               (Field_not_found ''ghost'' ''PairMessage''))"
proof -
  have h1: "Unmarshal_Range example_env json_drift PairMessage
     = Inr [(\<lparr>fd_Number = 1, fd_Name = ''first''\<rparr>, ''1''),
            (\<lparr>fd_Number = 9, fd_Name = ''ghost''\<rparr>, ''9'')]"
    by (simp add: example_defs)
  have h2: "\<exists>p \<in> set [(\<lparr>fd_Number = 1, fd_Name = ''first''\<rparr>, ''1''),
            (\<lparr>fd_Number = 9, fd_Name = ''ghost''\<rparr>, ''9'')].
           fd_Number (fst p) \<notin> (\<lambda>f. fd_Number (field_Desc f)) ` set (message_Fields PairMessage)"
    by (simp add: example_defs)
  have h3: "json_Marshal example_env json_drift = Inr json_drift"
    by (simp add: example_env_def)
  from field_mismatch [OF h1 h2] h3
  have "inputOutputToString example_env json_drift PairMessage
       = Inl (Field_not_found ''ghost'' ''PairMessage'')
     \<and> getProtoRepresentation example_env json_drift PairMessage example_file
       = Inl (Wrapped ''failed to generate message representation''
               (Field_not_found ''ghost'' ''PairMessage''))"
    by (auto simp: PairMessage_def)
  with h1 show ?thesis
    by simp
qed

text \<open>
  C5, as the code has it.  When \<open>inputOutputToString\<close> returns its list, the value has
  decoded, and the list holds one entry \<^verbatim>\<open>GoName: value\<close> for each populated field, in
  the order in which the traversal of the decoded value hands the fields over; the entry of
  a field is built from the field of the message type that carries its number.  Fields that
  are not populated have no entry.  \<open>getProtoRepresentation\<close> prints these entries, in
  this order, between the braces of the literal.  The code imposes no order of its own.
\<close>

theorem resolver_order:
  assumes "inputOutputToString env data message = Inr messageArguments"
  shows "\<exists>populated.
           Unmarshal_Range env data message = Inr populated
         \<and> list_all2
             (\<lambda>p a. \<exists>field \<in> set (message_Fields message).
                       fd_Number (field_Desc field) = fd_Number (fst p)
                     \<and> a = field_GoName field @ '': '' @ FormatFieldValue env (snd p))
             populated messageArguments
         \<and> (\<forall>r file. json_Marshal env r = Inr data \<longrightarrow>
               getProtoRepresentation env r message file
                 = Inr (''&'' @ qualify env file (message_GoIdent message) @ ''{''
                        @ Join messageArguments '','' @ ''}''))"
proof -
  let ?byNumber = "fieldsMapByNumber (message_Fields message)"
  from assms obtain populated where
    populated: "Unmarshal_Range env data message = Inr populated"
    and range: "Range env ?byNumber message populated [] = Inr messageArguments"
    by (auto simp: inputOutputToString_def split: sum.splits)
  from Range_Inr [OF range]
  have "list_all2 (\<lambda>p a. \<exists>field. ?byNumber (fd_Number (fst p)) = Some field
                        \<and> a = field_GoName field @ '': '' @ FormatFieldValue env (snd p))
         populated messageArguments"
    by simp
  then have "list_all2
             (\<lambda>p a. \<exists>field \<in> set (message_Fields message).
                       fd_Number (field_Desc field) = fd_Number (fst p)
                     \<and> a = field_GoName field @ '': '' @ FormatFieldValue env (snd p))
             populated messageArguments"
    by (rule list_all2_mono) (blast dest: fieldsMapByNumber_Some)
  with populated assms show ?thesis
    by (simp add: getProtoRepresentation_def)
qed

theorem resolver_order_witness:
  "inputOutputToString example_env json_pair PairMessage = Inr [''Second: 2'', ''First: 1'']
   \<and> Unmarshal_Range example_env json_pair PairMessage
       = Inr [(\<lparr>fd_Number = 2, fd_Name = ''second''\<rparr>, ''2''),
              (\<lparr>fd_Number = 1, fd_Name = ''first''\<rparr>, ''1'')]
   \<and> getProtoRepresentation example_env json_pair PairMessage example_file
       = Inr ''&PairMessage{Second: 2,First: 1}''"
proof -
  have h: "inputOutputToString example_env json_pair PairMessage
             = Inr [''Second: 2'', ''First: 1'']"
    by (simp add: resolve_defs example_defs)
  have m: "json_Marshal example_env json_pair = Inr json_pair"
    by (simp add: example_env_def)
  from resolver_order [OF h] m
  have "getProtoRepresentation example_env json_pair PairMessage example_file
          = Inr (''&'' @ qualify example_env example_file (message_GoIdent PairMessage) @ ''{''
                 @ Join [''Second: 2'', ''First: 1''] '','' @ ''}'')"
    by blast
  moreover have "Unmarshal_Range example_env json_pair PairMessage
       = Inr [(\<lparr>fd_Number = 2, fd_Name = ''second''\<rparr>, ''2''),
              (\<lparr>fd_Number = 1, fd_Name = ''first''\<rparr>, ''1'')]"
    by (simp add: example_defs)
  ultimately show ?thesis using h
    by (simp add: qualify_def Ident_def example_defs)
qed

text \<open>
  The claim C5 as it is written asks for ascending field numbers.  For the value
  \<open>json_pair\<close> the traversal hands over field 2 before field 1, and the entries come
  out in that order.
\<close>

theorem resolver_order_counterexample:
  "visited example_env json_pair PairMessage = [2, 1]
   \<and> \<not> sorted (visited example_env json_pair PairMessage)
   \<and> inputOutputToString example_env json_pair PairMessage = Inr [''Second: 2'', ''First: 1'']"
  by (simp add: visited_def resolve_defs example_defs)

section \<open>Printing\<close>

text \<open>
  The generator reads a generated file only to qualify identifiers, and that depends on the
  import path alone: lines already printed change nothing in what is printed next.
\<close>

lemma Ps_eq: "Ps ss g = g\<lparr>gf_buf := gf_buf g @ ss\<rparr>"
  unfolding Ps_def by (induction ss arbitrary: g) (simp_all add: P_def)

lemma P_Ps: "P s g = Ps [s] g"
  by (simp add: Ps_eq P_def)

lemma Ps_Ps: "Ps bs (Ps as g) = Ps (as @ bs) g"
  by (simp add: Ps_eq)


lemma qualify_Ps: "qualify env (Ps ss g) = qualify env g"
  by (rule ext) (simp add: qualify_def Ps_eq)

lemma getProtoRepresentation_Ps:
  "getProtoRepresentation env r message (Ps ss g) = getProtoRepresentation env r message g"
  by (simp add: getProtoRepresentation_def qualify_Ps cong: sum.case_cong)

lemma generateSuccessCases_Ps:
  "generateSuccessCases env (Ps ss g) method cases writer
     = generateSuccessCases env g method cases writer"
  by (induction cases arbitrary: writer)
     (simp_all add: getProtoRepresentation_Ps qualify_Ps cong: sum.case_cong if_cong)

lemma generateFailureCases_Ps:
  "generateFailureCases env (Ps ss g) method cases writer
     = generateFailureCases env g method cases writer"
  by (induction cases arbitrary: writer)
     (simp_all add: getProtoRepresentation_Ps qualify_Ps cong: sum.case_cong if_cong)

lemma generateClientCases_Ps:
  "generateClientCases env (Ps ss g) method methodContract
     = generateClientCases env g method methodContract"
  by (simp add: generateClientCases_def generateSuccessCases_Ps generateFailureCases_Ps
      cong: sum.case_cong)

lemma client_method_Ps:
  "client_method env (Ps ss g) clientName method switchCase
     = client_method env g clientName method switchCase"
  by (simp add: client_method_def qualify_Ps)

lemma method_test_header_Ps:
  "method_test_header env (Ps ss g) method = method_test_header env g method"
  by (simp add: method_test_header_def qualify_Ps)

section \<open>The client of a service\<close>

lemma generateClient_methods_lines:
  "generateClient_methods env clientName (Ps done file) methods contractService = Inr file' \<Longrightarrow>
   \<exists>switches.
     list_all2
       (\<lambda>method switchCase.
          generateClientCases env file method
            (index_Service contractService (method_GoName method)) = Inr switchCase)
       methods switches
   \<and> file' = Ps (done @ concat (map2 (\<lambda>method switchCase.
                     [client_method env file clientName method switchCase, []])
                   methods switches)) file"
proof (induction methods arbitrary: "done")
  case Nil
  then show ?case by simp
next
  case (Cons "method" methods)
  from Cons.prems obtain switchCase where
    sw: "generateClientCases env file method
           (index_Service contractService (method_GoName method)) = Inr switchCase"
    and rest: "generateClient_methods env clientName
                 (Ps (done @ [client_method env file clientName method switchCase, []]) file)
                 methods contractService = Inr file'"
    by (auto simp: generateClientCases_Ps client_method_Ps P_Ps Ps_Ps split: sum.splits)
  from Cons.IH [OF rest] obtain switches where
    all: "list_all2
       (\<lambda>method switchCase.
          generateClientCases env file method
            (index_Service contractService (method_GoName method)) = Inr switchCase)
       methods switches"
    and file': "file' = Ps ((done @ [client_method env file clientName method switchCase, []])
                  @ concat (map2 (\<lambda>method switchCase.
                     [client_method env file clientName method switchCase, []])
                   methods switches)) file"
    by blast
  from sw all file' show ?case
    by (intro exI [of _ "switchCase # switches"]) simp
qed



lemma readme_switch:
  "generateClientCases example_env example_file MyMethod MyMethod_contract
     = Inr (render_switch example_env example_file [twice_clauses ! 0, twice_clauses ! 2])"
  by (simp add: generateClientCases_def resolve_defs example_defs package_defs
      render_switch_def render_clause_def twice_clauses_def)



section \<open>The sections of the harness\<close>

lemma generateFailureTestForServer_rows_lines:
  "generateFailureTestForServer_rows env (Ps done file) method failureCases = Inr file' \<Longrightarrow>
   \<exists>rows. list_all2 (\<lambda>fc r. failure_test env file method fc = Inr r) failureCases rows
      \<and> file' = Ps (done @ map render_failure_row rows) file"
proof (induction failureCases arbitrary: "done")
  case Nil
  then show ?case by simp
next
  case (Cons failureCase failureCases)
  from Cons.prems obtain req where
    req: "getProtoRepresentation env (fc_Request failureCase) (method_Input method) file = Inr req"
    by (auto simp: getProtoRepresentation_Ps split: sum.splits)
  let ?r = "\<lparr>row_name = fc_Description failureCase, row_request = req,
             row_expectedError = Error_String env (fc_Error failureCase)\<rparr>"
  have r: "failure_test env file method failureCase = Inr ?r"
    by (simp add: failure_test_def req)
  from Cons.prems req
  have "generateFailureTestForServer_rows env (Ps (done @ [render_failure_row ?r]) file)
          method failureCases = Inr file'"
    by (simp add: getProtoRepresentation_Ps P_Ps Ps_Ps render_failure_row_def)
  from Cons.IH [OF this] obtain rows where
    rows: "list_all2 (\<lambda>fc r. failure_test env file method fc = Inr r) failureCases rows"
    and file': "file' = Ps ((done @ [render_failure_row ?r]) @ map render_failure_row rows) file"
    by blast
  from r rows file' show ?case
    by (intro exI [of _ "?r # rows"]) simp
qed

lemma generateFailureTestForServer_lines:
  assumes "generateFailureTestForServer env (Ps done file) method failureCases = Inr file'"
  shows "\<exists>rows. list_all2 (\<lambda>fc r. failure_test env file method fc = Inr r) failureCases rows
      \<and> file' = Ps (done @ failure_section env file method rows) file"
proof -
  let ?head = "[[],
      ''t.Run('' @ dquote @ ''Failure Cases'' @ dquote @ '', func(t *''
        @ qualify env file testingT @ '') {'',
      ''tests := []struct {name string'' @ newline
        @ ''request *'' @ qualify env file (message_GoIdent (method_Input method)) @ newline
        @ ''expectedError string} {'']"
  from assms obtain file1 where
    file1: "generateFailureTestForServer_rows env (Ps (done @ ?head) file) method failureCases
              = Inr file1"
    and file': "file' = Ps [''}'', [], failure_loop (method_GoName method), ''})''] file1"
    by (auto simp: generateFailureTestForServer_def qualify_Ps Ps_Ps split: sum.splits)
  from generateFailureTestForServer_rows_lines [OF file1] obtain rows where
    rows: "list_all2 (\<lambda>fc r. failure_test env file method fc = Inr r) failureCases rows"
    and f1: "file1 = Ps ((done @ ?head) @ map render_failure_row rows) file"
    by blast
  from file' f1 have "file' = Ps (done @ failure_section env file method rows) file"
    by (simp add: Ps_Ps failure_section_def)
  with rows show ?thesis by blast
qed

lemma generateSuccessTestForServer_rows_lines:
  "generateSuccessTestForServer_rows env (Ps done file) method successCases = Inr file' \<Longrightarrow>
   \<exists>rows. list_all2 (\<lambda>sc r. success_test env file method sc = Inr r) successCases rows
      \<and> file' = Ps (done @ rows) file"
proof (induction successCases arbitrary: "done")
  case Nil
  then show ?case by simp
next
  case (Cons successCase successCases)
  from Cons.prems obtain req resp where
    req: "getProtoRepresentation env (sc_Request successCase) (method_Input method) file = Inr req"
    and resp: "getProtoRepresentation env (sc_Response successCase) (method_Output method) file
                 = Inr resp"
    by (auto simp: getProtoRepresentation_Ps split: sum.splits)
  let ?r = "''{'' @ newline
            @ ''name: '' @ dquote @ sc_Description successCase @ dquote @ '','' @ newline
            @ ''request: '' @ req @ '','' @ newline
            @ ''expectedResponse: '' @ resp @ '','' @ newline
            @ ''},''"
  have r: "success_test env file method successCase = Inr ?r"
    by (simp add: success_test_def req resp)
  from Cons.prems req resp
  have "generateSuccessTestForServer_rows env (Ps (done @ [?r]) file) method successCases
          = Inr file'"
    by (simp add: getProtoRepresentation_Ps P_Ps Ps_Ps)
  from Cons.IH [OF this] obtain rows where
    rows: "list_all2 (\<lambda>sc r. success_test env file method sc = Inr r) successCases rows"
    and file': "file' = Ps ((done @ [?r]) @ rows) file"
    by blast
  from r rows file' show ?case
    by (intro exI [of _ "?r # rows"]) simp
qed

lemma generateSuccessTestForServer_lines:
  assumes "generateSuccessTestForServer env (Ps done file) method successCases = Inr file'"
  shows "\<exists>rows. list_all2 (\<lambda>sc r. success_test env file method sc = Inr r) successCases rows
      \<and> file' = Ps (done @ success_section env file method rows) file"
proof -
  let ?head = "[''t.Run('' @ dquote @ ''Success Cases'' @ dquote @ '', func(t *''
        @ qualify env file testingT @ '') {'',
      ''tests := []struct {name string'' @ newline
        @ ''request *'' @ qualify env file (message_GoIdent (method_Input method)) @ newline
        @ ''expectedResponse *'' @ qualify env file (message_GoIdent (method_Output method))
        @ ''} {'']"
  from assms obtain file1 where
    file1: "generateSuccessTestForServer_rows env (Ps (done @ ?head) file) method successCases
              = Inr file1"
    and file': "file' = Ps [''}'', [], success_loop (method_GoName method), ''})''] file1"
    by (auto simp: generateSuccessTestForServer_def qualify_Ps Ps_Ps split: sum.splits)
  from generateSuccessTestForServer_rows_lines [OF file1] obtain rows where
    rows: "list_all2 (\<lambda>sc r. success_test env file method sc = Inr r) successCases rows"
    and f1: "file1 = Ps ((done @ ?head) @ rows) file"
    by blast
  from file' f1 have "file' = Ps (done @ success_section env file method rows) file"
    by (simp add: Ps_Ps success_section_def)
  with rows show ?thesis by blast
qed




section \<open>The method tests of a service\<close>

lemma generateSuccessAndFailureTests_methods_lines:
  "generateSuccessAndFailureTests_methods env (Ps done file) methods contractService
     = Inr file' \<Longrightarrow>
   \<exists>blocks.
     list_all2
       (\<lambda>method block. \<exists>methodContract srows frows.
          contractService (method_GoName method) = Some methodContract
        \<and> list_all2 (\<lambda>sc r. success_test env file method sc = Inr r)
            (SuccessCases methodContract) srows
        \<and> list_all2 (\<lambda>fc r. failure_test env file method fc = Inr r)
            (FailureCases methodContract) frows
        \<and> block = method_block env file method srows frows)
       (filter (\<lambda>method. contractService (method_GoName method) \<noteq> None) methods) blocks
   \<and> file' = Ps (done @ concat blocks) file"
proof (induction methods arbitrary: "done")
  case Nil
  then show ?case by simp
next
  case (Cons "method" methods)
  show ?case
  proof (cases "contractService (method_GoName method)")
    case None
    with Cons.prems have "generateSuccessAndFailureTests_methods env (Ps done file) methods
        contractService = Inr file'"
      by simp
    from Cons.IH [OF this] None show ?thesis
      by simp
  next
    case (Some methodContract)
    let ?header = "method_test_header env file method"
    from Cons.prems Some obtain file1 file2 where
      f1: "generateSuccessTestForServer env (Ps (done @ [?header]) file) method
             (SuccessCases methodContract) = Inr file1"
      and f2: "generateFailureTestForServer env file1 method (FailureCases methodContract)
             = Inr file2"
      and rest: "generateSuccessAndFailureTests_methods env (P ''})'' file2) methods
             contractService = Inr file'"
      by (auto simp: method_test_header_Ps P_Ps Ps_Ps split: sum.splits)
    from generateSuccessTestForServer_lines [OF f1] obtain srows where
      srows: "list_all2 (\<lambda>sc r. success_test env file method sc = Inr r)
                (SuccessCases methodContract) srows"
      and file1: "file1 = Ps ((done @ [?header]) @ success_section env file method srows) file"
      by blast
    from generateFailureTestForServer_lines [OF f2 [unfolded file1]] obtain frows where
      frows: "list_all2 (\<lambda>fc r. failure_test env file method fc = Inr r)
                (FailureCases methodContract) frows"
      and file2: "file2 = Ps (((done @ [?header]) @ success_section env file method srows)
                              @ failure_section env file method frows) file"
      by blast
    from rest file2
    have "generateSuccessAndFailureTests_methods env
            (Ps (done @ method_block env file method srows frows) file) methods contractService
          = Inr file'"
      by (simp add: P_Ps Ps_Ps method_block_def)
    from Cons.IH [OF this] obtain blocks where
      blocks: "list_all2
       (\<lambda>method block. \<exists>methodContract srows frows.
          contractService (method_GoName method) = Some methodContract
        \<and> list_all2 (\<lambda>sc r. success_test env file method sc = Inr r)
            (SuccessCases methodContract) srows
        \<and> list_all2 (\<lambda>fc r. failure_test env file method fc = Inr r)
            (FailureCases methodContract) frows
        \<and> block = method_block env file method srows frows)
       (filter (\<lambda>method. contractService (method_GoName method) \<noteq> None) methods) blocks"
      and file': "file' = Ps ((done @ method_block env file method srows frows) @ concat blocks)
                            file"
      by blast
    from Some srows frows blocks file' show ?thesis
      by (intro exI [of _ "method_block env file method srows frows # blocks"]) auto
  qed
qed

text \<open>
  C8, as the code has it.  Whenever \<open>generateSuccessAndFailureTests\<close> returns, it has
  printed its header, then one method test for each method of the schema service that has an
  entry in the service contract, in the order of the schema and for no other method, then
  the closing brace.  The method test of a method holds one success row for each success
  case and one failure row for each failure case of the entry, so an entry that declares no
  case still gets its method test, with two empty tables.
\<close>

theorem subtest_per_contracted_method:
  assumes "generateSuccessAndFailureTests env file service contractService = Inr file'"
  shows "\<exists>blocks.
     list_all2
       (\<lambda>method block. \<exists>methodContract srows frows.
          contractService (method_GoName method) = Some methodContract
        \<and> list_all2 (\<lambda>sc r. success_test env file method sc = Inr r)
            (SuccessCases methodContract) srows
        \<and> list_all2 (\<lambda>fc r. failure_test env file method fc = Inr r)
            (FailureCases methodContract) frows
        \<and> block = method_block env file method srows frows)
       (filter (\<lambda>method. contractService (method_GoName method) \<noteq> None)
          (service_Methods service))
       blocks
   \<and> file' = Ps (run_tests_header env file service # concat blocks @ [''}'']) file"
proof -
  from assms obtain file1 where
    f1: "generateSuccessAndFailureTests_methods env (Ps [run_tests_header env file service] file)
           (service_Methods service) contractService = Inr file1"
    and file': "file' = P ''}'' file1"
    by (auto simp: generateSuccessAndFailureTests_def run_tests_header_def P_Ps
        split: sum.splits)
  from generateSuccessAndFailureTests_methods_lines [OF f1] obtain blocks where
    blocks: "list_all2
       (\<lambda>method block. \<exists>methodContract srows frows.
          contractService (method_GoName method) = Some methodContract
        \<and> list_all2 (\<lambda>sc r. success_test env file method sc = Inr r)
            (SuccessCases methodContract) srows
        \<and> list_all2 (\<lambda>fc r. failure_test env file method fc = Inr r)
            (FailureCases methodContract) frows
        \<and> block = method_block env file method srows frows)
       (filter (\<lambda>method. contractService (method_GoName method) \<noteq> None)
          (service_Methods service))
       blocks"
    and file1: "file1 = Ps ([run_tests_header env file service] @ concat blocks) file"
    by blast
  from file' file1
  have "file' = Ps (run_tests_header env file service # concat blocks @ [''}'']) file"
    by (simp add: P_Ps Ps_Ps)
  with blocks show ?thesis by blast
qed

lemma nocases_tests:
  "generateSuccessAndFailureTests example_env example_file TwoService
     [''MyMethod'' \<mapsto> zero_Method]
     = Inr (Ps (run_tests_header example_env example_file TwoService
                # method_block example_env example_file MyMethod [] []
                @ [''}''])
              example_file)"
  by (simp add: generateSuccessAndFailureTests_def generateSuccessTestForServer_def
      generateFailureTestForServer_def run_tests_header_def method_block_def
      method_test_header_def success_section_def failure_section_def zero_Method_def
      TwoService_def OtherMethod_def qualify_def Ident_def example_defs package_defs
      Ps_eq P_def)

theorem subtest_per_contracted_method_witness:
  "generateSuccessAndFailureTests example_env example_file TwoService
     [''MyMethod'' \<mapsto> zero_Method]
     = Inr (Ps (run_tests_header example_env example_file TwoService
                # method_block example_env example_file MyMethod [] []
                @ [''}''])
              example_file)
   \<and> (\<exists>blocks.
        list_all2
          (\<lambda>method block. \<exists>methodContract srows frows.
             [''MyMethod'' \<mapsto> zero_Method] (method_GoName method) = Some methodContract
           \<and> list_all2 (\<lambda>sc r. success_test example_env example_file method sc = Inr r)
               (SuccessCases methodContract) srows
           \<and> list_all2 (\<lambda>fc r. failure_test example_env example_file method fc = Inr r)
               (FailureCases methodContract) frows
           \<and> block = method_block example_env example_file method srows frows)
          [MyMethod] blocks
      \<and> Ps (run_tests_header example_env example_file TwoService
             # method_block example_env example_file MyMethod [] []
             @ [''}''])
           example_file
         = Ps (run_tests_header example_env example_file TwoService # concat blocks @ [''}''])
             example_file)"
proof -
  have methods:
    "filter (\<lambda>method. [''MyMethod'' \<mapsto> zero_Method] (method_GoName method) \<noteq> None)
       (service_Methods TwoService) = [MyMethod]"
    by (simp add: TwoService_def MyMethod_def OtherMethod_def)
  from subtest_per_contracted_method [OF nocases_tests] nocases_tests
  show ?thesis
    by (simp only: methods sum.inject)
qed

text \<open>
  The claim C8 as it is written gives no subtest to a method without a declared case.  The
  entry of \<open>MyMethod\<close> below declares no case, and the method test of \<open>MyMethod\<close>
  is printed.
\<close>

theorem subtest_per_contracted_method_counterexample:
  "SuccessCases (zero_Method :: string entities_Method) = []
   \<and> FailureCases (zero_Method :: string entities_Method) = []
   \<and> generateSuccessAndFailureTests example_env example_file MyService
       [''MyMethod'' \<mapsto> zero_Method]
       = Inr (Ps (run_tests_header example_env example_file MyService
                  # method_block example_env example_file MyMethod [] []
                  @ [''}''])
                example_file)
   \<and> hd (method_block example_env example_file MyMethod [] [])
       = ''t.Run('' @ dquote @ ''Contract test for '' @ squote @ ''MyMethod'' @ squote
         @ '' method'' @ dquote @ '', func(t *testing.T) {''"
  by (simp add: generateSuccessAndFailureTests_def generateSuccessTestForServer_def
      generateFailureTestForServer_def run_tests_header_def method_block_def
      method_test_header_def success_section_def failure_section_def zero_Method_def
      qualify_def Ident_def example_defs package_defs Ps_eq P_def)

section \<open>The units of a run\<close>

lemma generateClient_Ps:
  assumes "generateClient env (Ps done file) service contractService = Inr file'"
  shows "\<exists>ls. file' = Ps (done @ ls) file"
proof -
  let ?clientName = "MakeExportedName env (service_GoName service) @ ''ContractClient''"
  from assms have "generateClient_methods env ?clientName
      (Ps (done @ [''type '' @ ?clientName @ '' struct {}'']) file)
      (service_Methods service) contractService = Inr file'"
    by (simp add: generateClient_def P_Ps Ps_Ps)
  from generateClient_methods_lines [OF this] show ?thesis
    by auto
qed

lemma generateSuccessAndFailureTests_Ps:
  assumes "generateSuccessAndFailureTests env (Ps done file) service contractService = Inr file'"
  shows "\<exists>ls. file' = Ps (done @ ls) file"
proof -
  from assms obtain file1 where
    f1: "generateSuccessAndFailureTests_methods env
           (Ps (done @ [run_tests_header env file service]) file)
           (service_Methods service) contractService = Inr file1"
    and file': "file' = P ''}'' file1"
    by (auto simp: generateSuccessAndFailureTests_def run_tests_header_def P_Ps Ps_Ps
        qualify_Ps split: sum.splits)
  from generateSuccessAndFailureTests_methods_lines [OF f1] file' show ?thesis
    by (auto simp: P_Ps Ps_Ps)
qed

lemma generateServerTest_Ps:
  assumes "generateServerTest env (Ps done file) service contractService = Inr file'"
  shows "\<exists>ls. file' = Ps (done @ ls) file"
proof -
  from assms obtain ls0 where
    "generateSuccessAndFailureTests env (Ps (done @ ls0) file) service contractService
       = Inr file'"
    by (auto simp: generateServerTest_def Ps_Ps Let_def)
  from generateSuccessAndFailureTests_Ps [OF this] show ?thesis
    by auto
qed

lemma generateContracts_services_Ps:
  "generateContracts_services env (Ps done file) services rawContract = Inr file' \<Longrightarrow>
   \<exists>ls. file' = Ps (done @ ls) file"
proof (induction services arbitrary: "done")
  case Nil
  then show ?case by (auto intro: exI [of _ "[]"])
next
  case (Cons service services)
  show ?case
  proof (cases "contract_Services rawContract (service_GoName service)")
    case None
    with Cons show ?thesis by simp
  next
    case (Some serviceContract)
    with Cons.prems obtain file1 file2 where
      f1: "generateClient env (Ps done file) service serviceContract = Inr file1"
      and f2: "generateServerTest env file1 service serviceContract = Inr file2"
      and rest: "generateContracts_services env file2 services rawContract = Inr file'"
      by (auto split: sum.splits)
    from generateClient_Ps [OF f1] obtain ls1 where ls1: "file1 = Ps (done @ ls1) file"
      by blast
    from generateServerTest_Ps [OF f2 [unfolded ls1]] obtain ls2 where
      ls2: "file2 = Ps ((done @ ls1) @ ls2) file"
      by blast
    from Cons.IH [OF rest [unfolded ls2]] show ?thesis
      by auto
  qed
qed

lemma generateContracts_services_skip:
  "\<forall>service \<in> set services. contract_Services rawContract (service_GoName service) = None \<Longrightarrow>
   generateContracts_services env newFile services rawContract = Inr newFile"
  by (induction services) simp_all

lemma writeHeader_Ps: "\<exists>ls. writeHeader file newFile = Ps ls newFile"
  by (auto simp: writeHeader_def)

lemma generateContracts_Some:
  assumes "generateContracts env file contractFilePath = Inr (Some newFile)"
  shows "file_Services file \<noteq> []
       \<and> gf_filename newFile = file_GeneratedFilenamePrefix file @ ''_contract.pb.go''"
proof -
  let ?new = "NewGeneratedFile (file_GeneratedFilenamePrefix file @ ''_contract.pb.go'')
                (file_GoImportPath file)"
  from assms have services: "file_Services file \<noteq> []"
    by (auto simp: generateContracts_def split: if_splits)
  with assms obtain rawContract where
    "generateContracts_services env (writeHeader file ?new) (file_Services file) rawContract
       = Inr newFile"
    by (auto simp: generateContracts_def Let_def split: sum.splits)
  moreover obtain ls where "writeHeader file ?new = Ps ls ?new"
    using writeHeader_Ps by blast
  ultimately obtain ls' where "newFile = Ps (ls @ ls') ?new"
    using generateContracts_services_Ps by metis
  then have "gf_filename newFile = file_GeneratedFilenamePrefix file @ ''_contract.pb.go''"
    by (simp add: Ps_eq NewGeneratedFile_def)
  with services show ?thesis by simp
qed

lemma generateContracts_None:
  "generateContracts env file contractFilePath = Inr None \<Longrightarrow> file_Services file = []"
  by (auto simp: generateContracts_def Let_def split: if_splits sum.splits)

lemma main_files_names:
  "main_files env files contractFilePath generated = Inr out \<Longrightarrow>
   map gf_filename out
     = map gf_filename generated
       @ map (\<lambda>file. file_GeneratedFilenamePrefix file @ ''_contract.pb.go'')
           (filter (\<lambda>file. file_Generate file \<and> file_Services file \<noteq> []) files)"
proof (induction files arbitrary: generated)
  case Nil
  then show ?case by simp
next
  case (Cons a files)
  show ?case
  proof (cases "file_Generate a")
    case False
    with Cons show ?thesis by simp
  next
    case True
    with Cons.prems obtain r where r: "generateContracts env a contractFilePath = Inr r"
      by (auto split: sum.splits)
    show ?thesis
    proof (cases r)
      case None
      with r have "file_Services a = []"
        by (simp add: generateContracts_None)
      with Cons True r None show ?thesis by simp
    next
      case (Some newFile)
      with r have "file_Services a \<noteq> []"
        and "gf_filename newFile = file_GeneratedFilenamePrefix a @ ''_contract.pb.go''"
        by (simp_all add: generateContracts_Some)
      moreover from Cons.prems True r Some
      have "main_files env files contractFilePath (generated @ [newFile]) = Inr out"
        by simp
      ultimately show ?thesis
        using Cons.IH [of "generated @ [newFile]"] True by simp
    qed
  qed
qed

text \<open>
  C4, as the code has it.  Whenever the run ends without an error, it has emitted one unit,
  named \<^verbatim>\<open><prefix>_contract.pb.go\<close>, for each schema file that is selected for generation
  and declares at least one service, in the order of the files, and no other unit.  Whether
  the contract names a service of the file plays no part: \<open>generateContracts\<close> creates
  the unit and prints its header before it looks at the services, so a file none of whose
  services is in the contract gets a unit that holds the header alone.
\<close>

theorem unit_per_file_with_services:
  assumes "main env contract_file plugin_Files = Inr generated"
  shows "map gf_filename generated
           = map (\<lambda>file. file_GeneratedFilenamePrefix file @ ''_contract.pb.go'')
               (filter (\<lambda>file. file_Generate file \<and> file_Services file \<noteq> []) plugin_Files)
       \<and> (\<forall>file contractFilePath rawContract.
             file_Services file \<noteq> []
           \<and> ReadContractFile env contractFilePath = Inr rawContract
           \<and> (\<forall>service \<in> set (file_Services file).
                 contract_Services rawContract (service_GoName service) = None)
           \<longrightarrow> generateContracts env file contractFilePath
                 = Inr (Some (writeHeader file
                          (NewGeneratedFile
                             (file_GeneratedFilenamePrefix file @ ''_contract.pb.go'')
                             (file_GoImportPath file)))))"
proof -
  from assms obtain contractFilePath where
    "main_files env plugin_Files contractFilePath [] = Inr generated"
    by (auto simp: main_def Let_def split: if_splits)
  from main_files_names [OF this]
  have "map gf_filename generated
           = map (\<lambda>file. file_GeneratedFilenamePrefix file @ ''_contract.pb.go'')
               (filter (\<lambda>file. file_Generate file \<and> file_Services file \<noteq> []) plugin_Files)"
    by simp
  then show ?thesis
    by (simp add: generateContracts_def generateContracts_services_skip)
qed

lemmas generate_defs =
  main_def generateContracts_def generateClient_def generateServerTest_def writeHeader_def
  generateClientCases_def index_Service_def client_method_def
  generateSuccessAndFailureTests_def generateSuccessTestForServer_def
  generateFailureTestForServer_def method_test_header_def zero_Method_def

lemma readme_run:
  "\<exists>generated. main example_env (Some ''contract.json'') [example_proto] = Inr generated"
  by (simp add: generate_defs readme_contract_def resolve_defs example_defs package_defs
      Ps_eq P_def Let_def)

theorem unit_per_file_with_services_witness:
  "(\<exists>generated.
      main example_env (Some ''contract.json'') [example_proto] = Inr generated
    \<and> map gf_filename generated = [''example_contract.pb.go''])
   \<and> generateContracts example_env example_proto ''other.json''
       = Inr (Some (writeHeader example_proto example_file))"
proof -
  from readme_run obtain generated where
    run: "main example_env (Some ''contract.json'') [example_proto] = Inr generated"
    by blast
  have other: "file_Services example_proto \<noteq> []
      \<and> ReadContractFile example_env ''other.json'' = Inr other_contract
      \<and> list_all (\<lambda>service. contract_Services other_contract (service_GoName service) = None)
          (file_Services example_proto)"
    by (simp add: other_contract_def example_defs)
  from unit_per_file_with_services [OF run] other
  have "map gf_filename generated = [''example_contract.pb.go'']"
    and "generateContracts example_env example_proto ''other.json''
       = Inr (Some (writeHeader example_proto example_file))"
    by (simp_all add: list_all_iff example_proto_def example_file_def)
  with run show ?thesis
    by simp
qed

text \<open>
  The claim C4 as it is written emits nothing for a file none of whose services is in the
  contract.  The contract \<open>other_contract\<close> does not name \<open>MyService\<close>, the only
  service of \<open>example_proto\<close>, and the run emits a unit for the file.
\<close>

theorem unit_per_file_with_services_counterexample:
  "file_Services example_proto = [MyService]
   \<and> contract_Services other_contract (service_GoName MyService) = None
   \<and> ReadContractFile example_env ''other.json'' = Inr other_contract
   \<and> main example_env (Some ''other.json'') [example_proto]
       = Inr [writeHeader example_proto example_file]"
  by (simp add: main_def generateContracts_def other_contract_def example_defs)

section \<open>Error codes outside the enumeration\<close>











end
